theory Spec2Isabelle
  imports Complex_Main
begin

section \<open>JavaScript values\<close>

text \<open>
  The values that \<open>JSON.parse\<close> can produce. A number is modelled by the rational it
  denotes: JSON has no NaN and no infinities, and the plugin only tests numbers for
  truthiness and membership, where \<open>-0\<close> and \<open>0\<close> behave alike. An object is the list of
  its own properties in insertion order.
\<close>

datatype json =
    JNull
  | JBool bool
  | JNum rat
  | JStr string
  | JArr "json list"
  | JObj "(string \<times> json) list"

datatype error = SyntaxError | TypeError | SecurityError | QuotaExceededError

text \<open>\<open>if (value)\<close>: ToBoolean.\<close>

fun truthy :: "json \<Rightarrow> bool" where
  "truthy JNull = False"
| "truthy (JBool b) = b"
| "truthy (JNum x) = (x \<noteq> 0)"
| "truthy (JStr s) = (s \<noteq> [])"
| "truthy (JArr xs) = True"
| "truthy (JObj kvs) = True"

text \<open>
  \<open>data[option]\<close> for the five preference names; \<open>None\<close> is \<open>undefined\<close>. An array, a
  string, a number or a boolean has no property of any of these names.
\<close>

fun get_prop :: "json \<Rightarrow> string \<Rightarrow> json option" where
  "get_prop (JObj kvs) k = map_of kvs k"
| "get_prop v k = None"

fun assign :: "string \<Rightarrow> json \<Rightarrow> (string \<times> json) list \<Rightarrow> (string \<times> json) list" where
  "assign k v [] = [(k, v)]"
| "assign k v ((k', v') # kvs) =
     (if k' = k then (k, v) # kvs else (k', v') # assign k v kvs)"

text \<open>
  \<open>data.k = v\<close> in module (strict) code. On an object the property is created or
  overwritten. On an array the property is set beside the elements, where neither
  \<open>JSON.stringify\<close> nor any later code of the plugin reads it, so the array is returned as
  it is. On a primitive the assignment raises TypeError.
\<close>

fun set_prop :: "string \<Rightarrow> json \<Rightarrow> json \<Rightarrow> error + json" where
  "set_prop k v (JObj kvs) = Inr (JObj (assign k v kvs))"
| "set_prop k v (JArr xs) = Inr (JArr xs)"
| "set_prop k v d = Inl TypeError"

fun is_object :: "json \<Rightarrow> bool" where
  "is_object (JObj kvs) = True"
| "is_object v = False"

text \<open>
  \<open>JSON.parse\<close> and \<open>JSON.stringify\<close> belong to the platform, not to the plugin, and are
  parameters of the model. \<open>JSON_parse\<close> returns \<open>None\<close> where the platform raises
  SyntaxError.
\<close>

record builtins =
  JSON_parse :: "string \<Rightarrow> json option"
  JSON_stringify :: "json \<Rightarrow> string"

section \<open>Plugin configuration\<close>

type_synonym options = "string \<rightharpoonup> bool"

text \<open>An option value is only ever tested for truthiness, so it is modelled by a boolean.\<close>

definition key :: string where
  "key = ''persist-controls''"

definition defaultOptions :: options where
  "defaultOptions = [''muted'' \<mapsto> True, ''volume'' \<mapsto> True, ''playbackRate'' \<mapsto> True,
     ''captions'' \<mapsto> True, ''audioTrack'' \<mapsto> True]"

definition persistOptions :: "string list" where
  "persistOptions = [''volume'', ''muted'', ''playbackRate'', ''captions'', ''audioTrack'']"

text \<open>\<open>videojs.obj.merge(defaults, options)\<close>: the keys of \<open>options\<close> override.\<close>

definition obj_merge :: "options \<Rightarrow> options \<Rightarrow> options" where
  "obj_merge a b = a ++ b"

text \<open>\<open>options[option]\<close> is truthy.\<close>

definition enabled :: "options \<Rightarrow> string \<Rightarrow> bool" where
  "enabled opts k = (opts k = Some True)"

section \<open>Storage\<close>

text \<open>
  \<open>localStorage\<close>: its items, whether \<open>setItem\<close> raises QuotaExceededError, and the
  sequence of calls made on it so far (failed ones included).
\<close>

datatype storage_call = GetItem string | SetItem string string | RemoveItem string

record storage =
  items :: "string \<rightharpoonup> string"
  full :: bool
  calls :: "storage_call list"

definition getItem :: "string \<Rightarrow> storage \<Rightarrow> string option \<times> storage" where
  "getItem k st = (items st k, st\<lparr>calls := calls st @ [GetItem k]\<rparr>)"

definition setItem :: "string \<Rightarrow> string \<Rightarrow> storage \<Rightarrow> error option \<times> storage" where
  "setItem k v st =
     (if full st then (Some QuotaExceededError, st\<lparr>calls := calls st @ [SetItem k v]\<rparr>)
      else (None, st\<lparr>items := (items st)(k \<mapsto> v), calls := calls st @ [SetItem k v]\<rparr>))"

definition removeItem :: "string \<Rightarrow> storage \<Rightarrow> storage" where
  "removeItem k st = st\<lparr>items := (items st)(k := None), calls := calls st @ [RemoveItem k]\<rparr>"

section \<open>The player\<close>

record text_track =
  tt_language :: string
  tt_default :: bool
  tt_mode :: string

record audio_track =
  at_language :: string
  at_enabled :: bool

datatype event = volumechange | ratechange | texttrackchange | audiotrackchange

text \<open>
  The host player as far as the plugin touches it. Each control slot holds the value last
  handed to its setter, which is what its getter returns. \<open>playbackRates_method\<close> is
  \<open>None\<close> when the player has no \<open>playbackRates\<close> method, \<open>options_playbackRates\<close> is
  \<open>None\<close> when \<open>player.options_.playbackRates\<close> is unset. \<open>subscriptions\<close> lists the
  events for which the plugin has registered a handler.
\<close>

record player =
  classes :: "string list"
  p_volume :: json
  p_muted :: json
  p_playbackRate :: json
  p_defaultMuted :: json
  p_defaultPlaybackRate :: json
  playbackRates_method :: "rat list option"
  options_playbackRates :: "rat list option"
  textTracks :: "text_track list"
  audioTracks :: "audio_track list"
  subscriptions :: "event list"

text \<open>\<open>tracks.find(pred)\<close>, as the position of the track found.\<close>

fun findIndex :: "('a \<Rightarrow> bool) \<Rightarrow> 'a list \<Rightarrow> nat option" where
  "findIndex P [] = None"
| "findIndex P (x # xs) = (if P x then Some 0 else map_option Suc (findIndex P xs))"

text \<open>
  \<open>player.playbackRates ? player.playbackRates() : player.options_.playbackRates || []\<close>
\<close>

definition playerRates :: "player \<Rightarrow> rat list" where
  "playerRates p =
     (case playbackRates_method p of
        Some rs \<Rightarrow> rs
      | None \<Rightarrow> (case options_playbackRates p of Some rs \<Rightarrow> rs | None \<Rightarrow> []))"

text \<open>\<open>playerRates.includes(value)\<close> on an array of numbers.\<close>

fun rates_include :: "rat list \<Rightarrow> json \<Rightarrow> bool" where
  "rates_include rs (JNum x) = (x \<in> set rs)"
| "rates_include rs v = False"

text \<open>\<open>player[option](value)\<close> for the three options that reach that line.\<close>

definition call_setter :: "string \<Rightarrow> json \<Rightarrow> player \<Rightarrow> player" where
  "call_setter option v p =
     (if option = ''volume'' then p\<lparr>p_volume := v\<rparr>
      else if option = ''muted'' then p\<lparr>p_muted := v\<rparr>
      else if option = ''playbackRate'' then p\<lparr>p_playbackRate := v\<rparr>
      else p)"

section \<open>Startup: \<open>onPlayerReady\<close>\<close>

text \<open>
  The repository holds three copies of the plugin. The model follows the fullest one, with
  all five options. The other two are the same code without the \<open>audioTrack\<close> option,
  and without the \<open>captions\<close> option as well: they behave as this model does when those
  options are not enabled.
\<close>

text \<open>\<open>JSON.parse(localStorage.getItem(key)) || {}\<close>; an absent item is \<open>null\<close>, which
  \<open>JSON.parse\<close> reads as the text \<open>null\<close>.\<close>

definition decode :: "builtins \<Rightarrow> string option \<Rightarrow> error + json" where
  "decode js raw =
     (case JSON_parse js (case raw of None \<Rightarrow> ''null'' | Some t \<Rightarrow> t) of
        None \<Rightarrow> Inl SyntaxError
      | Some v \<Rightarrow> Inr (if truthy v then v else JObj []))"

text \<open>The \<open>captions\<close> branch of the \<open>forEach\<close> callback.\<close>

definition showCaptions :: "json \<Rightarrow> player \<Rightarrow> player" where
  "showCaptions v p =
     (let tracks = textTracks p in
      case findIndex tt_default tracks of
        Some i \<Rightarrow> p\<lparr>textTracks := tracks[i := (tracks ! i)\<lparr>tt_mode := ''showing''\<rparr>]\<rparr>
      | None \<Rightarrow>
          (case findIndex (\<lambda>t. JStr (tt_language t) = v) tracks of
             Some j \<Rightarrow> p\<lparr>textTracks := tracks[j := (tracks ! j)\<lparr>tt_mode := ''showing''\<rparr>]\<rparr>
           | None \<Rightarrow> p))"

text \<open>The \<open>audioTrack\<close> branch of the \<open>forEach\<close> callback.\<close>

definition enableAudioTrack :: "json \<Rightarrow> player \<Rightarrow> player" where
  "enableAudioTrack v p =
     (let tracks = audioTracks p;
          defaultTrack = findIndex at_enabled tracks;
          trackToShow = findIndex (\<lambda>t. JStr (at_language t) = v) tracks;
          tracks1 = (case (defaultTrack, trackToShow) of
                       (Some d, Some t) \<Rightarrow> tracks[d := (tracks ! d)\<lparr>at_enabled := False\<rparr>]
                     | _ \<Rightarrow> tracks);
          tracks2 = (case trackToShow of
                       Some t \<Rightarrow> tracks1[t := (tracks1 ! t)\<lparr>at_enabled := True\<rparr>]
                     | None \<Rightarrow> tracks1)
      in p\<lparr>audioTracks := tracks2\<rparr>)"

text \<open>The callback of \<open>persistOptions.forEach\<close>.\<close>

definition restore :: "options \<Rightarrow> json \<Rightarrow> rat list \<Rightarrow> string \<Rightarrow> player \<Rightarrow> player" where
  "restore opts d rates option p =
     (if \<not> enabled opts option then p
      else case get_prop d option of
        None \<Rightarrow> p
      | Some v \<Rightarrow>
          if \<not> truthy v then p
          else if option = ''playbackRate'' \<and> \<not> rates_include rates v then p
          else if option = ''captions'' then showCaptions v p
          else if option = ''audioTrack'' then enableAudioTrack v p
          else call_setter option v p)"

text \<open>The four \<open>if (...) player.on(...)\<close> blocks: which handlers get registered.\<close>

definition subscribe :: "options \<Rightarrow> event list" where
  "subscribe opts =
     (if enabled opts ''muted'' \<or> enabled opts ''volume'' then [volumechange] else []) @
     (if enabled opts ''playbackRate'' then [ratechange] else []) @
     (if enabled opts ''captions'' then [texttrackchange] else []) @
     (if enabled opts ''audioTrack'' then [audiotrackchange] else [])"

text \<open>What the handlers close over, with the player and the storage they act on.\<close>

record session =
  player :: player
  localStorage :: storage
  data :: json
  options :: options

definition onPlayerReady :: "builtins \<Rightarrow> player \<Rightarrow> options \<Rightarrow> storage \<Rightarrow> error + session" where
  "onPlayerReady js p opts st =
     (let p1 = p\<lparr>classes := classes p @ [''vjs-persist-controls'']\<rparr>;
          (raw, st1) = getItem key st
      in case decode js raw of
           Inl e \<Rightarrow> Inl e
         | Inr d \<Rightarrow>
             (let p2 = fold (restore opts d (playerRates p1)) persistOptions p1
              in Inr \<lparr>player = p2\<lparr>subscriptions := subscriptions p2 @ subscribe opts\<rparr>,
                      localStorage = st1, data = d, options = opts\<rparr>))"

section \<open>Change handlers\<close>

text \<open>
  A handler returns the error it raised, if any, and the state it leaves behind: what it
  did before raising stays done.
\<close>

definition write_record :: "builtins \<Rightarrow> json \<Rightarrow> session \<Rightarrow> error option \<times> session" where
  "write_record js d s =
     (case setItem key (JSON_stringify js d) (localStorage s) of
        (err, st) \<Rightarrow> (err, s\<lparr>data := d, localStorage := st\<rparr>))"

definition on_volumechange :: "builtins \<Rightarrow> session \<Rightarrow> error option \<times> session" where
  "on_volumechange js s =
     (let muted = enabled (options s) ''muted'';
          volume = enabled (options s) ''volume'';
          p = player s;
          isMuted = p_muted p;
          s1 = (if muted then s\<lparr>player := p\<lparr>p_defaultMuted := isMuted\<rparr>\<rparr> else s)
      in case (if muted then set_prop ''muted'' isMuted (data s) else Inr (data s)) of
           Inl e \<Rightarrow> (Some e, s1)
         | Inr d1 \<Rightarrow>
             (case (if volume then set_prop ''volume'' (p_volume p) d1 else Inr d1) of
                Inl e \<Rightarrow> (Some e, s1\<lparr>data := d1\<rparr>)
              | Inr d2 \<Rightarrow> write_record js d2 s1))"

definition on_ratechange :: "builtins \<Rightarrow> session \<Rightarrow> error option \<times> session" where
  "on_ratechange js s =
     (let p = player s;
          rate = p_playbackRate p;
          s1 = s\<lparr>player := p\<lparr>p_defaultPlaybackRate := rate\<rparr>\<rparr>
      in case set_prop ''playbackRate'' rate (data s) of
           Inl e \<Rightarrow> (Some e, s1)
         | Inr d1 \<Rightarrow> write_record js d1 s1)"

definition on_texttrackchange :: "builtins \<Rightarrow> session \<Rightarrow> error option \<times> session" where
  "on_texttrackchange js s =
     (let tracks = textTracks (player s) in
      case findIndex (\<lambda>t. tt_mode t = ''showing'') tracks of
        Some i \<Rightarrow>
          (case set_prop ''captions'' (JStr (tt_language (tracks ! i))) (data s) of
             Inl e \<Rightarrow> (Some e, s)
           | Inr d1 \<Rightarrow> write_record js d1 s)
      | None \<Rightarrow>
          (case set_prop ''captions'' (JStr []) (data s) of
             Inl e \<Rightarrow> (Some e, s)
           | Inr d1 \<Rightarrow> write_record js d1 s))"

text \<open>With no enabled track \<open>selectedTrack\<close> is \<open>undefined\<close> and reading its language
  raises TypeError.\<close>

definition on_audiotrackchange :: "builtins \<Rightarrow> session \<Rightarrow> error option \<times> session" where
  "on_audiotrackchange js s =
     (let tracks = audioTracks (player s) in
      case findIndex at_enabled tracks of
        None \<Rightarrow> (Some TypeError, s)
      | Some i \<Rightarrow>
          (case set_prop ''audioTrack'' (JStr (at_language (tracks ! i))) (data s) of
             Inl e \<Rightarrow> (Some e, s)
           | Inr d1 \<Rightarrow> write_record js d1 s))"

fun handler :: "event \<Rightarrow> builtins \<Rightarrow> session \<Rightarrow> error option \<times> session" where
  "handler volumechange = on_volumechange"
| "handler ratechange = on_ratechange"
| "handler texttrackchange = on_texttrackchange"
| "handler audiotrackchange = on_audiotrackchange"

text \<open>The player emits an event: the plugin's handler runs if one was registered.\<close>

definition fire :: "builtins \<Rightarrow> event \<Rightarrow> session \<Rightarrow> error option \<times> session" where
  "fire js ev s =
     (if ev \<in> set (subscriptions (player s)) then handler ev js s else (None, s))"

text \<open>A sequence of events; an error raised by one handler does not stop the next event.\<close>

fun run :: "builtins \<Rightarrow> event list \<Rightarrow> session \<Rightarrow> session" where
  "run js [] s = s"
| "run js (ev # evs) s = run js evs (snd (fire js ev s))"

text \<open>
  \<open>s\<close> is a state of the session that \<open>onPlayerReady\<close> left in state \<open>s0\<close>: the
  options the handlers close over and the handlers registered on the player are those of
  startup, whatever has happened since to the player's controls and tracks, to the record
  and to the storage.
\<close>

definition in_session :: "session \<Rightarrow> session \<Rightarrow> bool" where
  "in_session s0 s \<longleftrightarrow>
     options s = options s0 \<and> subscriptions (player s) = subscriptions (player s0)"

text \<open>The keys of the record that the handler of an event assigns.\<close>

fun assigned_keys :: "options \<Rightarrow> event \<Rightarrow> string list" where
  "assigned_keys opts volumechange =
     (if enabled opts ''muted'' then [''muted''] else []) @
     (if enabled opts ''volume'' then [''volume''] else [])"
| "assigned_keys opts ratechange = [''playbackRate'']"
| "assigned_keys opts texttrackchange = [''captions'']"
| "assigned_keys opts audiotrackchange = [''audioTrack'']"

section \<open>Activation: \<open>persistControls\<close>\<close>

text \<open>
  The page: the player, its storage, whether reading \<open>window.localStorage\<close> raises
  SecurityError, what \<open>videojs.log\<close> has printed, and the callbacks handed to
  \<open>player.ready\<close>, each given by the options it will pass to \<open>onPlayerReady\<close>.
\<close>

record world =
  w_player :: player
  w_localStorage :: storage
  access_denied :: bool
  w_log :: "string list"
  ready_queue :: "options list"

definition testKey :: string where
  "testKey = ''persist-controls-test''"

text \<open>The \<open>try\<close> block returns \<open>True\<close>; the \<open>catch\<close> turns every error into \<open>False\<close>.\<close>

definition checkLocalStorageAvailability :: "world \<Rightarrow> bool \<times> world" where
  "checkLocalStorageAvailability w =
     (if access_denied w then (False, w)
      else case setItem testKey ''.'' (w_localStorage w) of
             (Some e, st) \<Rightarrow> (False, w\<lparr>w_localStorage := st\<rparr>)
           | (None, st) \<Rightarrow> (True, w\<lparr>w_localStorage := removeItem testKey st\<rparr>))"

definition persistControls :: "options \<Rightarrow> world \<Rightarrow> world" where
  "persistControls opts w =
     (case checkLocalStorageAvailability w of
        (isLocalStorageAvailable, w1) \<Rightarrow>
          if \<not> isLocalStorageAvailable then w1\<lparr>w_log := w_log w1 @ [''localStorage unavailable.'']\<rparr>
          else w1\<lparr>ready_queue := ready_queue w1 @ [obj_merge defaultOptions opts]\<rparr>)"

section \<open>Example states\<close>

text \<open>
  An excerpt of what \<open>JSON.parse\<close> and \<open>JSON.stringify\<close> do, for evaluating the model on
  concrete inputs: the listed texts and the values they denote. Every other text is
  rejected here, as \<open>JSON.parse\<close> rejects the text \<open>not json\<close>.
\<close>

definition text_muted_true :: string where
  \<open>text_muted_true = ''{"muted":true}''\<close>

definition text_muted_false_volume_0 :: string where
  \<open>text_muted_false_volume_0 = ''{"muted":false,"volume":0}''\<close>

definition text_muted_true_volume_042 :: string where
  \<open>text_muted_true_volume_042 = ''{"muted":true,"volume":0.42}''\<close>

definition text_muted_volume_rate :: string where
  \<open>text_muted_volume_rate = ''{"muted":true,"volume":0.42,"playbackRate":1}''\<close>

definition text_volume_042 :: string where
  \<open>text_volume_042 = ''{"volume":0.42}''\<close>

definition text_playbackRate_0 :: string where
  \<open>text_playbackRate_0 = ''{"playbackRate":0}''\<close>

definition text_empty_array :: string where
  \<open>text_empty_array = ''[]''\<close>

definition text_playbackRate_15 :: string where
  \<open>text_playbackRate_15 = ''{"playbackRate":1.5}''\<close>

definition text_captions_empty :: string where
  \<open>text_captions_empty = ''{"captions":""}''\<close>

definition text_captions_fr :: string where
  \<open>text_captions_fr = ''{"captions":"fr"}''\<close>

definition text_audioTrack_empty :: string where
  \<open>text_audioTrack_empty = ''{"audioTrack":""}''\<close>

definition text_audioTrack_fr :: string where
  \<open>text_audioTrack_fr = ''{"audioTrack":"fr"}''\<close>

definition sample_texts :: "(string \<times> json) list" where
  "sample_texts =
     [(''null'', JNull),
      (text_muted_true, JObj [(''muted'', JBool True)]),
      (text_muted_false_volume_0, JObj [(''muted'', JBool False), (''volume'', JNum 0)]),
      (text_muted_true_volume_042, JObj [(''muted'', JBool True), (''volume'', JNum 0.42)]),
      (text_muted_volume_rate,
         JObj [(''muted'', JBool True), (''volume'', JNum 0.42), (''playbackRate'', JNum 1)]),
      (text_volume_042, JObj [(''volume'', JNum 0.42)]),
      (text_playbackRate_0, JObj [(''playbackRate'', JNum 0)]),
      (text_empty_array, JArr []),
      (text_playbackRate_15, JObj [(''playbackRate'', JNum 1.5)]),
      (text_captions_empty, JObj [(''captions'', JStr [])]),
      (text_captions_fr, JObj [(''captions'', JStr ''fr'')]),
      (text_audioTrack_empty, JObj [(''audioTrack'', JStr [])]),
      (text_audioTrack_fr, JObj [(''audioTrack'', JStr ''fr'')])]"

definition sample_JSON :: builtins where
  "sample_JSON =
     \<lparr>JSON_parse = map_of sample_texts,
      JSON_stringify = (\<lambda>v. case map_of (map prod.swap sample_texts) v of
                               Some t \<Rightarrow> t | None \<Rightarrow> ''null'')\<rparr>"

definition storage0 :: storage where
  "storage0 = \<lparr>items = Map.empty, full = False, calls = []\<rparr>"

definition player0 :: player where
  "player0 =
     \<lparr>classes = [], p_volume = JNum 1, p_muted = JBool True, p_playbackRate = JNum 1,
      p_defaultMuted = JBool False, p_defaultPlaybackRate = JNum 1,
      playbackRates_method = Some [0.5, 1, 1.5, 2], options_playbackRates = None,
      textTracks = [], audioTracks = [], subscriptions = []\<rparr>"

definition session0 :: session where
  "session0 =
     \<lparr>player = player0\<lparr>classes := [''vjs-persist-controls''],
        subscriptions := [volumechange, ratechange, texttrackchange, audiotrackchange]\<rparr>,
      localStorage = storage0\<lparr>calls := [GetItem key]\<rparr>,
      data = JObj [], options = defaultOptions\<rparr>"

definition world_full :: world where
  "world_full =
     \<lparr>w_player = player0, w_localStorage = storage0\<lparr>full := True\<rparr>, access_denied = False,
      w_log = [], ready_queue = []\<rparr>"

text \<open>The record key holding one text, in otherwise empty storage.\<close>

definition stored :: "string \<Rightarrow> storage" where
  "stored t = storage0\<lparr>items := [key \<mapsto> t]\<rparr>"

definition track_en_default :: text_track where
  "track_en_default = \<lparr>tt_language = ''en'', tt_default = True, tt_mode = ''disabled''\<rparr>"

definition track_fr :: text_track where
  "track_fr = \<lparr>tt_language = ''fr'', tt_default = False, tt_mode = ''disabled''\<rparr>"

definition audio_en :: audio_track where
  "audio_en = \<lparr>at_language = ''en'', at_enabled = True\<rparr>"

definition audio_fr :: audio_track where
  "audio_fr = \<lparr>at_language = ''fr'', at_enabled = False\<rparr>"

definition audio_untagged :: audio_track where
  "audio_untagged = \<lparr>at_language = [], at_enabled = False\<rparr>"

text \<open>The user moves the volume control; the player then emits \<open>volumechange\<close>.\<close>

definition user_sets_volume :: "json \<Rightarrow> session \<Rightarrow> session" where
  "user_sets_volume v s = s\<lparr>player := (player s)\<lparr>p_volume := v\<rparr>\<rparr>"

definition opts_no_volume :: options where
  "opts_no_volume = obj_merge defaultOptions [''volume'' \<mapsto> False]"

definition opts_no_muted :: options where
  "opts_no_muted = obj_merge defaultOptions [''muted'' \<mapsto> False]"

definition track_fr_showing :: text_track where
  "track_fr_showing = \<lparr>tt_language = ''fr'', tt_default = False, tt_mode = ''showing''\<rparr>"

definition opts_no_volume_no_muted :: options where
  "opts_no_volume_no_muted = obj_merge defaultOptions [''volume'' \<mapsto> False, ''muted'' \<mapsto> False]"

section \<open>Auxiliary facts\<close>

lemmas sample_defs =
  sample_JSON_def sample_texts_def text_muted_true_def text_muted_false_volume_0_def
  text_muted_true_volume_042_def text_muted_volume_rate_def text_playbackRate_15_def
  text_volume_042_def text_playbackRate_0_def text_empty_array_def text_captions_empty_def
  text_captions_fr_def text_audioTrack_empty_def text_audioTrack_fr_def

lemmas startup_defs =
  onPlayerReady_def getItem_def decode_def key_def persistOptions_def restore_def enabled_def
  defaultOptions_def Let_def showCaptions_def enableAudioTrack_def call_setter_def
  playerRates_def subscribe_def stored_def storage0_def player0_def

lemmas handler_defs =
  fire_def on_volumechange_def on_ratechange_def on_texttrackchange_def on_audiotrackchange_def
  write_record_def setItem_def user_sets_volume_def session0_def opts_no_volume_def
  opts_no_volume_no_muted_def opts_no_muted_def obj_merge_def

lemmas example_defs = startup_defs handler_defs sample_defs

lemma onPlayerReady_Inl:
  "decode js (items st key) = Inl e \<Longrightarrow> onPlayerReady js p opts st = Inl e"
  by (simp add: onPlayerReady_def getItem_def)

lemma playerRates_classes [simp]: "playerRates (p\<lparr>classes := c\<rparr>) = playerRates p"
  by (simp add: playerRates_def split: option.splits)

lemma onPlayerReady_Inr:
  "decode js (items st key) = Inr d \<Longrightarrow>
   onPlayerReady js p opts st =
     Inr \<lparr>player =
            (fold (restore opts d (playerRates p)) persistOptions
               (p\<lparr>classes := classes p @ [''vjs-persist-controls'']\<rparr>))
            \<lparr>subscriptions :=
               subscriptions (fold (restore opts d (playerRates p)) persistOptions
               (p\<lparr>classes := classes p @ [''vjs-persist-controls'']\<rparr>)) @ subscribe opts\<rparr>,
          localStorage = st\<lparr>calls := calls st @ [GetItem key]\<rparr>, data = d, options = opts\<rparr>"
  by (simp add: onPlayerReady_def getItem_def Let_def)

lemma onPlayerReady_data:
  "onPlayerReady js p opts st = Inr s \<Longrightarrow> decode js (items st key) = Inr (data s)"
  by (auto simp: onPlayerReady_def getItem_def Let_def split: sum.splits)

lemma checkLocalStorageAvailability_fails_iff:
  "\<not> fst (checkLocalStorageAvailability w) \<longleftrightarrow> access_denied w \<or> full (w_localStorage w)"
  by (simp add: checkLocalStorageAvailability_def setItem_def)

lemma fold_restore:
  "fold (restore opts d rs) persistOptions p =
     restore opts d rs ''audioTrack'' (restore opts d rs ''captions''
       (restore opts d rs ''playbackRate'' (restore opts d rs ''muted''
         (restore opts d rs ''volume'' p))))"
  by (simp add: persistOptions_def)

lemma restore_textTracks:
  "textTracks (restore opts d rs option p) =
     (if option = ''captions'' then
        (case get_prop d ''captions'' of
           Some v \<Rightarrow> if enabled opts ''captions'' \<and> truthy v
                     then textTracks (showCaptions v p) else textTracks p
         | None \<Rightarrow> textTracks p)
      else textTracks p)"
  by (simp add: restore_def call_setter_def enableAudioTrack_def Let_def split: option.splits)

lemma restore_audioTracks:
  "audioTracks (restore opts d rs option p) =
     (if option = ''audioTrack'' then
        (case get_prop d ''audioTrack'' of
           Some v \<Rightarrow> if enabled opts ''audioTrack'' \<and> truthy v
                     then audioTracks (enableAudioTrack v p) else audioTracks p
         | None \<Rightarrow> audioTracks p)
      else audioTracks p)"
  by (simp add: restore_def call_setter_def showCaptions_def Let_def split: option.splits)

lemma restore_playbackRate:
  "p_playbackRate (restore opts d rs option p) =
     (if option = ''playbackRate'' then
        (case get_prop d ''playbackRate'' of
           Some v \<Rightarrow> if enabled opts ''playbackRate'' \<and> truthy v \<and> rates_include rs v
                     then v else p_playbackRate p
         | None \<Rightarrow> p_playbackRate p)
      else p_playbackRate p)"
  by (simp add: restore_def call_setter_def showCaptions_def enableAudioTrack_def Let_def
      split: option.splits)

lemma restore_muted:
  "p_muted (restore opts d rs option p) =
     (if option = ''muted'' then
        (case get_prop d ''muted'' of
           Some v \<Rightarrow> if enabled opts ''muted'' \<and> truthy v then v else p_muted p
         | None \<Rightarrow> p_muted p)
      else p_muted p)"
  by (simp add: restore_def call_setter_def showCaptions_def enableAudioTrack_def Let_def
      split: option.splits)

lemma restore_volume:
  "p_volume (restore opts d rs option p) =
     (if option = ''volume'' then
        (case get_prop d ''volume'' of
           Some v \<Rightarrow> if enabled opts ''volume'' \<and> truthy v then v else p_volume p
         | None \<Rightarrow> p_volume p)
      else p_volume p)"
  by (simp add: restore_def call_setter_def showCaptions_def enableAudioTrack_def Let_def
      split: option.splits)

lemma findIndex_None_iff: "findIndex P xs = None \<longleftrightarrow> (\<forall>x\<in>set xs. \<not> P x)"
  by (induction xs) auto

lemma findIndex_Some_iff:
  "findIndex P xs = Some i \<longleftrightarrow> i < length xs \<and> P (xs ! i) \<and> (\<forall>j<i. \<not> P (xs ! j))"
proof (induction xs arbitrary: i)
  case Nil
  then show ?case by simp
next
  case (Cons x xs)
  show ?case
  proof (cases i)
    case 0
    then show ?thesis by auto
  next
    case (Suc k)
    have "(\<forall>j<Suc k. \<not> P ((x # xs) ! j)) \<longleftrightarrow> \<not> P x \<and> (\<forall>j<k. \<not> P (xs ! j))"
      by (auto simp: less_Suc_eq_0_disj)
    then show ?thesis using Suc Cons.IH [of k] by auto
  qed
qed

lemma filter_empty_nth: "filter P xs = [] \<Longrightarrow> i < length xs \<Longrightarrow> \<not> P (xs ! i)"
  by (metis filter_empty_conv nth_mem)

lemma single_first:
  "length (filter P xs) = 1 \<Longrightarrow> \<exists>d. findIndex P xs = Some d"
proof -
  assume "length (filter P xs) = 1"
  then have "filter P xs \<noteq> []" by auto
  then have "\<exists>x\<in>set xs. P x" by (simp add: filter_empty_conv)
  then have "findIndex P xs \<noteq> None" by (simp add: findIndex_None_iff)
  then show ?thesis by auto
qed

lemma single_unique:
  "length (filter P xs) = 1 \<Longrightarrow> findIndex P xs = Some d \<Longrightarrow> i < length xs \<Longrightarrow>
   P (xs ! i) \<Longrightarrow> i = d"
proof (induction xs arbitrary: d i)
  case Nil
  then show ?case by simp
next
  case (Cons x xs)
  show ?case
  proof (cases "P x")
    case True
    with Cons.prems have e: "filter P xs = []" and d: "d = 0" by auto
    show ?thesis
    proof (cases i)
      case 0
      then show ?thesis using d by simp
    next
      case (Suc k)
      with Cons.prems have "k < length xs" "P (xs ! k)" by auto
      with filter_empty_nth [OF e] show ?thesis by blast
    qed
  next
    case False
    with Cons.prems obtain d' where d': "findIndex P xs = Some d'" "d = Suc d'" by auto
    from False Cons.prems obtain k where k: "i = Suc k" by (cases i) auto
    with Cons.prems False have "length (filter P xs) = 1" "k < length xs" "P (xs ! k)" by auto
    with Cons.IH d' have "k = d'" by blast
    then show ?thesis using k d' by simp
  qed
qed

lemma only_one_count:
  "j < length xs \<Longrightarrow> (\<forall>i<length xs. P (xs ! i) = (i = j)) \<Longrightarrow> length (filter P xs) = 1"
proof (induction xs arbitrary: j)
  case Nil
  then show ?case by simp
next
  case (Cons x xs)
  show ?case
  proof (cases j)
    case 0
    with Cons.prems have "P x" by auto
    moreover have "\<forall>y\<in>set xs. \<not> P y"
    proof
      fix y assume "y \<in> set xs"
      then obtain k where "k < length xs" "xs ! k = y" by (auto simp: in_set_conv_nth)
      with Cons.prems(2) [rule_format, of "Suc k"] 0 show "\<not> P y" by auto
    qed
    then have "filter P xs = []" by (simp add: filter_empty_conv)
    ultimately show ?thesis by simp
  next
    case (Suc k)
    with Cons.prems have "\<not> P x" by auto
    moreover have "k < length xs" using Suc Cons.prems by simp
    moreover have "\<forall>i<length xs. P (xs ! i) = (i = k)"
    proof (intro allI impI)
      fix i assume "i < length xs"
      with Cons.prems(2) [rule_format, of "Suc i"] Suc show "P (xs ! i) = (i = k)" by auto
    qed
    ultimately show ?thesis using Cons.IH [of k] by simp
  qed
qed

lemma textTracks_showCaptions:
  "textTracks (showCaptions v p) =
     (case findIndex tt_default (textTracks p) of
        Some i \<Rightarrow> (textTracks p)[i := (textTracks p ! i)\<lparr>tt_mode := ''showing''\<rparr>]
      | None \<Rightarrow>
          (case findIndex (\<lambda>t. JStr (tt_language t) = v) (textTracks p) of
             Some j \<Rightarrow> (textTracks p)[j := (textTracks p ! j)\<lparr>tt_mode := ''showing''\<rparr>]
           | None \<Rightarrow> textTracks p))"
  by (simp add: showCaptions_def Let_def split: option.splits)

lemma audioTracks_enableAudioTrack:
  "audioTracks (enableAudioTrack v p) =
     (case findIndex (\<lambda>t. JStr (at_language t) = v) (audioTracks p) of
        None \<Rightarrow> audioTracks p
      | Some t \<Rightarrow>
          (case findIndex at_enabled (audioTracks p) of
             None \<Rightarrow> (audioTracks p)[t := (audioTracks p ! t)\<lparr>at_enabled := True\<rparr>]
           | Some d \<Rightarrow>
               ((audioTracks p)[d := (audioTracks p ! d)\<lparr>at_enabled := False\<rparr>])
                 [t := ((audioTracks p)[d := (audioTracks p ! d)\<lparr>at_enabled := False\<rparr>] ! t)
                         \<lparr>at_enabled := True\<rparr>]))"
  by (simp add: enableAudioTrack_def Let_def split: option.splits)

lemma onPlayerReady_session:
  assumes "onPlayerReady js p opts st = Inr s"
  shows "player s =
           (restore opts (data s) (playerRates p) ''audioTrack''
             (restore opts (data s) (playerRates p) ''captions''
               (restore opts (data s) (playerRates p) ''playbackRate''
                 (restore opts (data s) (playerRates p) ''muted''
                   (restore opts (data s) (playerRates p) ''volume''
                     (p\<lparr>classes := classes p @ [''vjs-persist-controls'']\<rparr>))))))
           \<lparr>subscriptions :=
              subscriptions
                (restore opts (data s) (playerRates p) ''audioTrack''
                  (restore opts (data s) (playerRates p) ''captions''
                    (restore opts (data s) (playerRates p) ''playbackRate''
                      (restore opts (data s) (playerRates p) ''muted''
                        (restore opts (data s) (playerRates p) ''volume''
                          (p\<lparr>classes := classes p @ [''vjs-persist-controls'']\<rparr>))))))
              @ subscribe opts\<rparr>"
    and "localStorage s = st\<lparr>calls := calls st @ [GetItem key]\<rparr>"
    and "options s = opts"
proof -
  from assms have d: "decode js (items st key) = Inr (data s)" by (rule onPlayerReady_data)
  from assms have e: "s = projr (onPlayerReady js p opts st)" by simp
  show "player s =
           (restore opts (data s) (playerRates p) ''audioTrack''
             (restore opts (data s) (playerRates p) ''captions''
               (restore opts (data s) (playerRates p) ''playbackRate''
                 (restore opts (data s) (playerRates p) ''muted''
                   (restore opts (data s) (playerRates p) ''volume''
                     (p\<lparr>classes := classes p @ [''vjs-persist-controls'']\<rparr>))))))
           \<lparr>subscriptions :=
              subscriptions
                (restore opts (data s) (playerRates p) ''audioTrack''
                  (restore opts (data s) (playerRates p) ''captions''
                    (restore opts (data s) (playerRates p) ''playbackRate''
                      (restore opts (data s) (playerRates p) ''muted''
                        (restore opts (data s) (playerRates p) ''volume''
                          (p\<lparr>classes := classes p @ [''vjs-persist-controls'']\<rparr>))))))
              @ subscribe opts\<rparr>"
    by (subst e) (simp add: onPlayerReady_Inr [OF d] fold_restore)
  show "localStorage s = st\<lparr>calls := calls st @ [GetItem key]\<rparr>"
    by (subst e) (simp add: onPlayerReady_Inr [OF d])
  show "options s = opts"
    by (subst e) (simp add: onPlayerReady_Inr [OF d])
qed

lemma startup_textTracks:
  assumes "onPlayerReady js p opts st = Inr s"
  shows "textTracks (player s) =
     (case get_prop (data s) ''captions'' of
        Some v \<Rightarrow> if enabled opts ''captions'' \<and> truthy v
                  then textTracks (showCaptions v p) else textTracks p
      | None \<Rightarrow> textTracks p)"
  unfolding onPlayerReady_session(1) [OF assms]
  by (simp add: restore_textTracks textTracks_showCaptions split: option.splits)

lemma startup_audioTracks:
  assumes "onPlayerReady js p opts st = Inr s"
  shows "audioTracks (player s) =
     (case get_prop (data s) ''audioTrack'' of
        Some v \<Rightarrow> if enabled opts ''audioTrack'' \<and> truthy v
                  then audioTracks (enableAudioTrack v p) else audioTracks p
      | None \<Rightarrow> audioTracks p)"
  unfolding onPlayerReady_session(1) [OF assms]
  by (simp add: restore_audioTracks audioTracks_enableAudioTrack split: option.splits)

lemma startup_playbackRate:
  assumes "onPlayerReady js p opts st = Inr s"
  shows "p_playbackRate (player s) =
     (case get_prop (data s) ''playbackRate'' of
        Some v \<Rightarrow> if enabled opts ''playbackRate'' \<and> truthy v \<and> rates_include (playerRates p) v
                  then v else p_playbackRate p
      | None \<Rightarrow> p_playbackRate p)"
  unfolding onPlayerReady_session(1) [OF assms]
  by (simp add: restore_playbackRate split: option.splits)

lemma startup_muted:
  assumes "onPlayerReady js p opts st = Inr s"
  shows "p_muted (player s) =
     (case get_prop (data s) ''muted'' of
        Some v \<Rightarrow> if enabled opts ''muted'' \<and> truthy v then v else p_muted p
      | None \<Rightarrow> p_muted p)"
  unfolding onPlayerReady_session(1) [OF assms]
  by (simp add: restore_muted split: option.splits)

lemma startup_volume:
  assumes "onPlayerReady js p opts st = Inr s"
  shows "p_volume (player s) =
     (case get_prop (data s) ''volume'' of
        Some v \<Rightarrow> if enabled opts ''volume'' \<and> truthy v then v else p_volume p
      | None \<Rightarrow> p_volume p)"
  unfolding onPlayerReady_session(1) [OF assms]
  by (simp add: restore_volume split: option.splits)

lemma startup_subscriptions:
  assumes "onPlayerReady js p opts st = Inr s"
  shows "subscriptions (player s) = subscriptions p @ subscribe opts"
proof -
  have f: "subscriptions (restore opts d rs option q) = subscriptions q" for d rs option q
    by (simp add: restore_def call_setter_def showCaptions_def enableAudioTrack_def Let_def
        split: option.splits)
  show ?thesis
    unfolding onPlayerReady_session(1) [OF assms] by (simp add: f)
qed

lemma swap_enabled:
  assumes one: "length (filter at_enabled tracks) = 1"
    and d: "findIndex at_enabled tracks = Some d"
    and j: "findIndex (\<lambda>t. at_language t = lang) tracks = Some j"
    and i: "i < length tracks"
  shows "at_enabled ((tracks[d := (tracks ! d)\<lparr>at_enabled := False\<rparr>])
           [j := ((tracks[d := (tracks ! d)\<lparr>at_enabled := False\<rparr>]) ! j)\<lparr>at_enabled := True\<rparr>] ! i)
         = (i = j)"
    and "at_language ((tracks[d := (tracks ! d)\<lparr>at_enabled := False\<rparr>])
           [j := ((tracks[d := (tracks ! d)\<lparr>at_enabled := False\<rparr>]) ! j)\<lparr>at_enabled := True\<rparr>] ! i)
         = at_language (tracks ! i)"
proof -
  from j have jl: "j < length tracks" by (simp add: findIndex_Some_iff)
  from d have dl: "d < length tracks" by (simp add: findIndex_Some_iff)
  have u: "at_enabled (tracks ! i) \<Longrightarrow> i = d"
    using single_unique [OF one d i] by blast
  show "at_enabled ((tracks[d := (tracks ! d)\<lparr>at_enabled := False\<rparr>])
           [j := ((tracks[d := (tracks ! d)\<lparr>at_enabled := False\<rparr>]) ! j)\<lparr>at_enabled := True\<rparr>] ! i)
         = (i = j)"
    using i jl dl u by (auto simp: nth_list_update)
  show "at_language ((tracks[d := (tracks ! d)\<lparr>at_enabled := False\<rparr>])
           [j := ((tracks[d := (tracks ! d)\<lparr>at_enabled := False\<rparr>]) ! j)\<lparr>at_enabled := True\<rparr>] ! i)
         = at_language (tracks ! i)"
    using i jl dl by (auto simp: nth_list_update)
qed

lemma map_of_assign: "map_of (assign k v kvs) = (map_of kvs)(k \<mapsto> v)"
  by (induction kvs) auto

lemma handler_step:
  assumes "is_object (data s)"
  shows "is_object (data (snd (handler ev js s)))
     \<and> (\<forall>k. k \<notin> set (assigned_keys (options s) ev) \<longrightarrow>
            get_prop (data (snd (handler ev js s))) k = get_prop (data s) k)
     \<and> (calls (localStorage (snd (handler ev js s))) = calls (localStorage s)
        \<or> calls (localStorage (snd (handler ev js s))) =
            calls (localStorage s) @ [SetItem key (JSON_stringify js (data (snd (handler ev js s))))])
     \<and> (fst (handler ev js s) = None \<longrightarrow>
          items (localStorage (snd (handler ev js s))) key =
            Some (JSON_stringify js (data (snd (handler ev js s)))))"
proof -
  obtain kvs where d: "data s = JObj kvs" using assms by (cases "data s") auto
  show ?thesis
  proof (cases ev)
    case volumechange
    then show ?thesis
      by (auto simp: d on_volumechange_def Let_def map_of_assign write_record_def setItem_def)
  next
    case ratechange
    then show ?thesis
      by (auto simp: d on_ratechange_def Let_def map_of_assign write_record_def setItem_def)
  next
    case texttrackchange
    then show ?thesis
      by (auto simp: d on_texttrackchange_def Let_def map_of_assign write_record_def
          setItem_def split: option.splits)
  next
    case audiotrackchange
    then show ?thesis
      by (auto simp: d on_audiotrackchange_def Let_def map_of_assign write_record_def
          setItem_def split: option.splits)
  qed
qed

lemma handler_frame:
  "options (snd (handler ev js s)) = options s
   \<and> subscriptions (player (snd (handler ev js s))) = subscriptions (player s)"
  by (cases ev)
    (auto simp: on_volumechange_def on_ratechange_def on_texttrackchange_def
      on_audiotrackchange_def Let_def write_record_def split: option.splits sum.splits prod.splits)

lemma fire_frame:
  "options (snd (fire js ev s)) = options s
   \<and> subscriptions (player (snd (fire js ev s))) = subscriptions (player s)"
  by (simp add: fire_def handler_frame)

lemma run_frame:
  "options (run js evs s) = options s
   \<and> subscriptions (player (run js evs s)) = subscriptions (player s)"
  by (induction evs arbitrary: s) (simp_all add: fire_frame)

lemma fire_object: "is_object (data s) \<Longrightarrow> is_object (data (snd (fire js ev s)))"
  using handler_step [of s ev js] by (simp add: fire_def)

lemma run_object: "is_object (data s) \<Longrightarrow> is_object (data (run js evs s))"
  by (induction evs arbitrary: s) (simp_all add: fire_object)




lemma in_session_refl: "in_session s s"
  by (simp add: in_session_def)

lemma in_session_fire: "in_session s0 s \<Longrightarrow> in_session s0 (snd (fire js ev s))"
  by (simp add: in_session_def fire_frame)

lemma in_session_run: "in_session s0 s \<Longrightarrow> in_session s0 (run js evs s)"
  by (simp add: in_session_def run_frame)


lemma startup_registers:
  assumes "onPlayerReady js p opts st = Inr s0" and "in_session s0 s"
  shows "options s = opts"
    and "enabled opts ''muted'' \<or> enabled opts ''volume'' \<Longrightarrow>
           volumechange \<in> set (subscriptions (player s))"
    and "enabled opts ''playbackRate'' \<Longrightarrow> ratechange \<in> set (subscriptions (player s))"
    and "enabled opts ''captions'' \<Longrightarrow> texttrackchange \<in> set (subscriptions (player s))"
    and "enabled opts ''audioTrack'' \<Longrightarrow> audiotrackchange \<in> set (subscriptions (player s))"
    and "\<not> enabled opts ''muted'' \<Longrightarrow> \<not> enabled opts ''volume'' \<Longrightarrow>
           volumechange \<notin> set (subscriptions p) \<Longrightarrow>
           volumechange \<notin> set (subscriptions (player s))"
  using assms(2) onPlayerReady_session(3) [OF assms(1)] startup_subscriptions [OF assms(1)]
  by (auto simp: in_session_def subscribe_def)

section \<open>Decoding the persisted record\<close>

text \<open>
  C1 (as amended). Decoding tolerates an absent item, not malformed text. With nothing
  stored, and for any stored text that \<open>JSON.parse\<close> reads as a falsy value, the decoded
  record is the empty object. For a stored text that \<open>JSON.parse\<close> rejects, the
  SyntaxError is not caught: decoding fails, and so does \<open>onPlayerReady\<close>.
\<close>

theorem decode_absent_empty_malformed_raises:
  "(JSON_parse js ''null'' = Some JNull \<longrightarrow> decode js None = Inr (JObj []))
   \<and> (JSON_parse js u = Some v \<longrightarrow> \<not> truthy v \<longrightarrow> decode js (Some u) = Inr (JObj []))
   \<and> (JSON_parse js t = None \<longrightarrow> decode js (Some t) = Inl SyntaxError)
   \<and> (JSON_parse js t = None \<longrightarrow> items st key = Some t \<longrightarrow>
        onPlayerReady js p opts st = Inl SyntaxError)"
  by (simp add: decode_def onPlayerReady_Inl)

theorem decode_absent_empty_malformed_raises_witness:
  "decode sample_JSON None = Inr (JObj [])
   \<and> decode sample_JSON (Some ''null'') = Inr (JObj [])
   \<and> decode sample_JSON (Some ''not json'') = Inl SyntaxError
   \<and> onPlayerReady sample_JSON player0 defaultOptions
        (storage0\<lparr>items := [key \<mapsto> ''not json'']\<rparr>) = Inl SyntaxError"
proof -
  have a: "JSON_parse sample_JSON ''null'' = Some JNull"
    by (simp add: sample_defs)
  have b: "JSON_parse sample_JSON ''not json'' = None"
    by (simp add: sample_defs)
  have c: "items (storage0\<lparr>items := [key \<mapsto> ''not json'']\<rparr>) key = Some ''not json''"
    by simp
  have d: "\<not> truthy JNull"
    by simp
  show ?thesis
    using decode_absent_empty_malformed_raises
      [of sample_JSON "''null''" JNull "''not json''"
          "storage0\<lparr>items := [key \<mapsto> ''not json'']\<rparr>" player0 defaultOptions] a b c d
    by blast
qed

text \<open>
  The claim as stated fails for the stored text \<open>not json\<close>: decoding it does not yield
  the empty record but raises, and startup fails with it.
\<close>

theorem decode_malformed_counterexample:
  "decode sample_JSON (Some ''not json'') = Inl SyntaxError
   \<and> decode sample_JSON (Some ''not json'') \<noteq> Inr (JObj [])
   \<and> isl (onPlayerReady sample_JSON player0 defaultOptions
        (storage0\<lparr>items := [key \<mapsto> ''not json'']\<rparr>))"
  by (simp add: decode_def onPlayerReady_def getItem_def sample_defs)

section \<open>Captions at startup\<close>

text \<open>
  C2 (as amended). With the \<open>captions\<close> option enabled and a non-empty persisted
  captions language, startup follows default-wins precedence: if some track is flagged as
  default, the first such track is set to showing, whatever the persisted language;
  otherwise, if some track has the persisted language, the first such track is set to
  showing; otherwise the track list is left as it is. With the empty string persisted,
  the track list is left as it is, default track or not.
\<close>

theorem captions_default_wins:
  assumes "onPlayerReady js p opts st = Inr s"
    and "enabled opts ''captions''"
    and "get_prop (data s) ''captions'' = Some (JStr lang)"
  shows "(lang \<noteq> [] \<longrightarrow>
           (case findIndex tt_default (textTracks p) of
              Some i \<Rightarrow>
                textTracks (player s) =
                  (textTracks p)[i := (textTracks p ! i)\<lparr>tt_mode := ''showing''\<rparr>]
            | None \<Rightarrow>
                (case findIndex (\<lambda>t. tt_language t = lang) (textTracks p) of
                   Some j \<Rightarrow>
                     textTracks (player s) =
                       (textTracks p)[j := (textTracks p ! j)\<lparr>tt_mode := ''showing''\<rparr>]
                 | None \<Rightarrow> textTracks (player s) = textTracks p)))
       \<and> (lang = [] \<longrightarrow> textTracks (player s) = textTracks p)"
  using assms(2,3)
  by (simp add: startup_textTracks [OF assms(1)] textTracks_showCaptions split: option.splits)

theorem captions_default_wins_witness:
  "\<not> isl (onPlayerReady sample_JSON (player0\<lparr>textTracks := [track_fr, track_en_default]\<rparr>)
            defaultOptions (stored text_captions_fr))
   \<and> enabled defaultOptions ''captions''
   \<and> get_prop (data (projr (onPlayerReady sample_JSON
          (player0\<lparr>textTracks := [track_fr, track_en_default]\<rparr>)
          defaultOptions (stored text_captions_fr)))) ''captions'' = Some (JStr ''fr'')
   \<and> textTracks (player (projr (onPlayerReady sample_JSON
          (player0\<lparr>textTracks := [track_fr, track_en_default]\<rparr>)
          defaultOptions (stored text_captions_fr)))) =
        [track_fr, track_en_default\<lparr>tt_mode := ''showing''\<rparr>]"
proof -
  let ?r = "onPlayerReady sample_JSON (player0\<lparr>textTracks := [track_fr, track_en_default]\<rparr>)
              defaultOptions (stored text_captions_fr)"
  have ok: "\<not> isl ?r"
    by (simp add: startup_defs sample_defs)
  then have h1: "?r = Inr (projr ?r)"
    by (cases ?r) simp_all
  have h2: "enabled defaultOptions ''captions''"
    by (simp add: enabled_def defaultOptions_def)
  have h3: "get_prop (data (projr ?r)) ''captions'' = Some (JStr ''fr'')"
    by (simp add: startup_defs sample_defs)
  have t: "findIndex tt_default [track_fr, track_en_default] = Some 1"
    by (simp add: track_fr_def track_en_default_def)
  show ?thesis
    using ok h2 h3 captions_default_wins [OF h1 h2 h3] t
    by simp
qed

text \<open>
  The claim as stated fails for the persisted value \<open>""\<close>: the list has a default
  track, and startup does not set it to showing.
\<close>

theorem captions_empty_counterexample:
  "\<not> isl (onPlayerReady sample_JSON (player0\<lparr>textTracks := [track_en_default]\<rparr>)
            defaultOptions (stored text_captions_empty))
   \<and> get_prop (data (projr (onPlayerReady sample_JSON
          (player0\<lparr>textTracks := [track_en_default]\<rparr>)
          defaultOptions (stored text_captions_empty)))) ''captions'' = Some (JStr [])
   \<and> tt_default track_en_default
   \<and> textTracks (player (projr (onPlayerReady sample_JSON
          (player0\<lparr>textTracks := [track_en_default]\<rparr>)
          defaultOptions (stored text_captions_empty)))) = [track_en_default]
   \<and> tt_mode track_en_default \<noteq> ''showing''"
  by (simp add: startup_defs sample_defs track_en_default_def)

section \<open>Audio track at startup\<close>

text \<open>
  C3. The claim asks that a track whose language equals the persisted \<open>audioTrack\<close>
  value become the enabled one. The change handler persists the empty string when the
  user enables a track without a language tag, and startup tests \<open>if (value)\<close> before
  looking for the track: with the option enabled, \<open>""\<close> persisted and a list whose one
  enabled track is \<open>en\<close> and whose other track has exactly the empty language, the list
  is as before after startup, \<open>en\<close> still enabled and the matching track still disabled.
\<close>

theorem startup_skips_empty_audio_language:
  "\<not> isl (onPlayerReady sample_JSON (player0\<lparr>audioTracks := [audio_en, audio_untagged]\<rparr>)
            defaultOptions (stored text_audioTrack_empty))
   \<and> get_prop (data (projr (onPlayerReady sample_JSON
          (player0\<lparr>audioTracks := [audio_en, audio_untagged]\<rparr>)
          defaultOptions (stored text_audioTrack_empty)))) ''audioTrack'' =
        Some (JStr (at_language audio_untagged))
   \<and> length (filter at_enabled [audio_en, audio_untagged]) = 1
   \<and> audioTracks (player (projr (onPlayerReady sample_JSON
          (player0\<lparr>audioTracks := [audio_en, audio_untagged]\<rparr>)
          defaultOptions (stored text_audioTrack_empty)))) = [audio_en, audio_untagged]
   \<and> \<not> at_enabled audio_untagged"
  by (simp add: startup_defs sample_defs audio_en_def audio_untagged_def)

text \<open>
  For a persisted language that is not empty the resolution is preference-wins. With
  exactly one enabled track in the list: if some track has the persisted language, then
  after startup the first such track is the one enabled track of the list (so the track
  enabled before is disabled, unless it is that very track), and no language has changed;
  if no track has the persisted language, the list is left as it is.
\<close>

theorem audioTrack_preference_wins:
  assumes "onPlayerReady js p opts st = Inr s"
    and "enabled opts ''audioTrack''"
    and "get_prop (data s) ''audioTrack'' = Some (JStr lang)"
    and "lang \<noteq> []"
    and "length (filter at_enabled (audioTracks p)) = 1"
  shows "case findIndex (\<lambda>t. at_language t = lang) (audioTracks p) of
           Some j \<Rightarrow>
             length (audioTracks (player s)) = length (audioTracks p)
             \<and> (\<forall>i<length (audioTracks p).
                  at_enabled (audioTracks (player s) ! i) = (i = j)
                  \<and> at_language (audioTracks (player s) ! i) = at_language (audioTracks p ! i))
             \<and> length (filter at_enabled (audioTracks (player s))) = 1
         | None \<Rightarrow> audioTracks (player s) = audioTracks p"
proof (cases "findIndex (\<lambda>t. at_language t = lang) (audioTracks p)")
  case None
  then show ?thesis
    using assms(2,3,4)
    by (simp add: startup_audioTracks [OF assms(1)] audioTracks_enableAudioTrack)
next
  case (Some j)
  from single_first [OF assms(5)] obtain d where d: "findIndex at_enabled (audioTracks p) = Some d"
    by blast
  let ?ts = "audioTracks p"
  let ?ts' = "(?ts[d := (?ts ! d)\<lparr>at_enabled := False\<rparr>])
                [j := ((?ts[d := (?ts ! d)\<lparr>at_enabled := False\<rparr>]) ! j)\<lparr>at_enabled := True\<rparr>]"
  have eq: "audioTracks (player s) = ?ts'"
    using assms(2,3,4) Some d
    by (simp add: startup_audioTracks [OF assms(1)] audioTracks_enableAudioTrack)
  have len: "length ?ts' = length ?ts" by simp
  from Some have jl: "j < length ?ts" by (simp add: findIndex_Some_iff)
  have each: "\<forall>i<length ?ts. at_enabled (?ts' ! i) = (i = j)
                \<and> at_language (?ts' ! i) = at_language (?ts ! i)"
    using swap_enabled [OF assms(5) d Some] by blast
  then have "\<forall>i<length ?ts'. at_enabled (?ts' ! i) = (i = j)" by simp
  with jl have "length (filter at_enabled ?ts') = 1"
    by (intro only_one_count [of j]) simp_all
  with each len show ?thesis
    unfolding eq Some by simp
qed

theorem audioTrack_preference_wins_witness:
  "\<not> isl (onPlayerReady sample_JSON (player0\<lparr>audioTracks := [audio_en, audio_fr]\<rparr>)
            defaultOptions (stored text_audioTrack_fr))
   \<and> enabled defaultOptions ''audioTrack''
   \<and> get_prop (data (projr (onPlayerReady sample_JSON
          (player0\<lparr>audioTracks := [audio_en, audio_fr]\<rparr>)
          defaultOptions (stored text_audioTrack_fr)))) ''audioTrack'' = Some (JStr ''fr'')
   \<and> length (filter at_enabled [audio_en, audio_fr]) = 1
   \<and> length (filter at_enabled (audioTracks (player (projr (onPlayerReady sample_JSON
          (player0\<lparr>audioTracks := [audio_en, audio_fr]\<rparr>)
          defaultOptions (stored text_audioTrack_fr)))))) = 1
   \<and> at_enabled (audioTracks (player (projr (onPlayerReady sample_JSON
          (player0\<lparr>audioTracks := [audio_en, audio_fr]\<rparr>)
          defaultOptions (stored text_audioTrack_fr)))) ! 1)
   \<and> \<not> at_enabled (audioTracks (player (projr (onPlayerReady sample_JSON
          (player0\<lparr>audioTracks := [audio_en, audio_fr]\<rparr>)
          defaultOptions (stored text_audioTrack_fr)))) ! 0)"
proof -
  let ?p = "player0\<lparr>audioTracks := [audio_en, audio_fr]\<rparr>"
  let ?r = "onPlayerReady sample_JSON ?p defaultOptions (stored text_audioTrack_fr)"
  have ok: "\<not> isl ?r"
    by (simp add: startup_defs sample_defs)
  then have h1: "?r = Inr (projr ?r)"
    by (cases ?r) simp_all
  have h2: "enabled defaultOptions ''audioTrack''"
    by (simp add: enabled_def defaultOptions_def)
  have h3: "get_prop (data (projr ?r)) ''audioTrack'' = Some (JStr ''fr'')"
    by (simp add: startup_defs sample_defs)
  have h4: "''fr'' \<noteq> []"
    by simp
  have h5: "length (filter at_enabled (audioTracks ?p)) = 1"
    by (simp add: audio_en_def audio_fr_def)
  have t: "findIndex (\<lambda>t. at_language t = ''fr'') (audioTracks ?p) = Some 1"
    by (simp add: audio_en_def audio_fr_def)
  show ?thesis
    using ok h2 h3 h5 audioTrack_preference_wins [OF h1 h2 h3 h4 h5] t
    by simp
qed

section \<open>Muted and volume at startup\<close>

text \<open>
  C4. The claim asks that a persisted \<open>muted\<close> of \<open>false\<close> and a persisted \<open>volume\<close>
  of \<open>0\<close> be assigned like any other value. The code tests \<open>if (value)\<close> before
  assigning: with both options enabled and the record \<open>{muted: false, volume: 0}\<close>
  stored, a player that starts muted at volume 1 is still muted at volume 1 after
  startup.
\<close>

theorem startup_skips_muted_false_and_volume_0:
  "\<not> isl (onPlayerReady sample_JSON player0 defaultOptions (stored text_muted_false_volume_0))
   \<and> get_prop (data (projr (onPlayerReady sample_JSON player0 defaultOptions
          (stored text_muted_false_volume_0)))) ''muted'' = Some (JBool False)
   \<and> get_prop (data (projr (onPlayerReady sample_JSON player0 defaultOptions
          (stored text_muted_false_volume_0)))) ''volume'' = Some (JNum 0)
   \<and> p_muted (player (projr (onPlayerReady sample_JSON player0 defaultOptions
          (stored text_muted_false_volume_0)))) = JBool True
   \<and> p_volume (player (projr (onPlayerReady sample_JSON player0 defaultOptions
          (stored text_muted_false_volume_0)))) = JNum 1"
  by (simp add: startup_defs sample_defs)

section \<open>Activation without usable storage\<close>

text \<open>
  C5. When the storage probe fails, \<open>persistControls\<close> does nothing but log: the player
  (its subscriptions included) is as before, the stored items are as before, the only
  call that can have reached the storage is the probe's own failed \<open>setItem\<close> of the test
  key, no \<open>ready\<close> callback is queued (so \<open>onPlayerReady\<close> never runs), and one notice is
  logged. This holds for every \<open>opts\<close>. \<open>persistControls\<close> has no exit but a normal
  return: the probe's errors end in its \<open>catch\<close>.
\<close>

theorem persistControls_noop_when_probe_fails:
  assumes "\<not> fst (checkLocalStorageAvailability w)"
  shows "w_player (persistControls opts w) = w_player w
    \<and> items (w_localStorage (persistControls opts w)) = items (w_localStorage w)
    \<and> (calls (w_localStorage (persistControls opts w)) = calls (w_localStorage w)
        \<or> calls (w_localStorage (persistControls opts w)) =
            calls (w_localStorage w) @ [SetItem testKey ''.''])
    \<and> ready_queue (persistControls opts w) = ready_queue w
    \<and> w_log (persistControls opts w) = w_log w @ [''localStorage unavailable.'']"
  using assms
  by (auto simp: persistControls_def checkLocalStorageAvailability_def setItem_def
      split: if_splits)

theorem persistControls_noop_when_probe_fails_witness:
  "\<not> fst (checkLocalStorageAvailability world_full)
   \<and> w_player (persistControls Map.empty world_full) = player0
   \<and> items (w_localStorage (persistControls Map.empty world_full)) = Map.empty
   \<and> ready_queue (persistControls Map.empty world_full) = []
   \<and> w_log (persistControls Map.empty world_full) = [''localStorage unavailable.'']"
proof -
  have h: "\<not> fst (checkLocalStorageAvailability world_full)"
    by (simp add: checkLocalStorageAvailability_def setItem_def world_full_def storage0_def)
  show ?thesis
    using h persistControls_noop_when_probe_fails [OF h, of Map.empty]
    by (simp add: world_full_def storage0_def)
qed

section \<open>Playback rate at startup\<close>


text \<open>
  Apart from that, the gate is as claimed, for every persisted value: one that is not
  among the supported rates leaves the player's rate as it was, and one that is among
  them and passes \<open>if (value)\<close> becomes the player's rate.
\<close>

lemma playbackRate_gated_by_supported_rates:
  assumes "onPlayerReady js p opts st = Inr s"
    and "enabled opts ''playbackRate''"
    and "get_prop (data s) ''playbackRate'' = Some v"
  shows "(\<not> rates_include (playerRates p) v \<longrightarrow> p_playbackRate (player s) = p_playbackRate p)
       \<and> (rates_include (playerRates p) v \<longrightarrow> truthy v \<longrightarrow> p_playbackRate (player s) = v)
       \<and> (\<not> truthy v \<longrightarrow> p_playbackRate (player s) = p_playbackRate p)"
  using assms(2,3)
  by (auto simp: startup_playbackRate [OF assms(1)])

section \<open>Writing the volume on change\<close>




section \<open>Every write serializes the whole record\<close>

text \<open>
  C8. Starting from a record that is an object, after any sequence of events the record
  is still an object, and for any further event: every key that the event's handler does
  not assign keeps its value in the record; the only call the handler can make on the
  storage is one \<open>setItem\<close> of the record key with the serialization of the whole
  record; and when the handler runs without error, that serialization is what the
  storage holds.
\<close>

theorem writes_serialize_whole_record:
  assumes "is_object (data s)"
  shows "is_object (data (run js evs s))
    \<and> is_object (data (snd (fire js ev (run js evs s))))
    \<and> (\<forall>k. k \<notin> set (assigned_keys (options s) ev) \<longrightarrow>
           get_prop (data (snd (fire js ev (run js evs s)))) k =
           get_prop (data (run js evs s)) k)
    \<and> (calls (localStorage (snd (fire js ev (run js evs s)))) =
          calls (localStorage (run js evs s))
        \<or> calls (localStorage (snd (fire js ev (run js evs s)))) =
          calls (localStorage (run js evs s)) @
            [SetItem key (JSON_stringify js (data (snd (fire js ev (run js evs s)))))])
    \<and> (fst (fire js ev (run js evs s)) = None \<longrightarrow>
          ev \<in> set (subscriptions (player s)) \<longrightarrow>
          items (localStorage (snd (fire js ev (run js evs s)))) key =
            Some (JSON_stringify js (data (snd (fire js ev (run js evs s))))))"
proof -
  have o: "is_object (data (run js evs s))" using assms by (rule run_object)
  from handler_step [OF o, of ev js] o show ?thesis
    by (simp add: fire_def run_frame)
qed

theorem writes_serialize_whole_record_witness:
  "is_object (data (user_sets_volume (JNum 0.42) session0))
   \<and> get_prop (data (run sample_JSON [volumechange] (user_sets_volume (JNum 0.42) session0)))
        ''volume'' = Some (JNum 0.42)
   \<and> fst (fire sample_JSON ratechange
        (run sample_JSON [volumechange] (user_sets_volume (JNum 0.42) session0))) = None
   \<and> get_prop (data (snd (fire sample_JSON ratechange
        (run sample_JSON [volumechange] (user_sets_volume (JNum 0.42) session0)))))
        ''volume'' = Some (JNum 0.42)
   \<and> items (localStorage (snd (fire sample_JSON ratechange
        (run sample_JSON [volumechange] (user_sets_volume (JNum 0.42) session0))))) key =
        Some text_muted_volume_rate"
proof -
  let ?s = "user_sets_volume (JNum 0.42) session0"
  let ?s1 = "run sample_JSON [volumechange] ?s"
  let ?r = "fire sample_JSON ratechange ?s1"
  have h: "is_object (data ?s)"
    by (simp add: user_sets_volume_def session0_def)
  have v: "get_prop (data ?s1) ''volume'' = Some (JNum 0.42)"
    by (simp add: example_defs)
  have k: "''volume'' \<notin> set (assigned_keys (options ?s) ratechange)"
    by simp
  have e: "fst ?r = None"
    by (simp add: example_defs)
  have sub: "ratechange \<in> set (subscriptions (player ?s))"
    by (simp add: user_sets_volume_def session0_def)
  have t: "JSON_stringify sample_JSON (data (snd ?r)) = text_muted_volume_rate"
    by (simp add: example_defs)
  from writes_serialize_whole_record [OF h, of sample_JSON "[volumechange]" ratechange]
  have "get_prop (data (snd ?r)) ''volume'' = get_prop (data ?s1) ''volume''"
    and "items (localStorage (snd ?r)) key = Some (JSON_stringify sample_JSON (data (snd ?r)))"
    using k e sub by blast+
  then show ?thesis using h v e t by simp
qed

section \<open>Persisting the caption choice\<close>

text \<open>
  C9 (as amended). In every state of a session that \<open>onPlayerReady\<close> has set up with
  the \<open>captions\<close> option enabled, when the record is an object and storage accepts the
  write, a caption-track-change event sets the record's \<open>captions\<close> to the language of
  the first showing track, or to the empty string if no track is showing; in both cases
  the key is present in the record, unlike in a record where it was never set; the whole
  record is written to storage, and a read that parses the written text back yields it.
\<close>

theorem captions_change_persists_language_or_empty:
  assumes "onPlayerReady js p opts st = Inr s0"
    and "enabled opts ''captions''"
    and "in_session s0 s"
    and "is_object (data s)"
    and "\<not> full (localStorage s)"
  shows "fst (fire js texttrackchange s) = None
    \<and> get_prop (data (snd (fire js texttrackchange s))) ''captions'' =
        Some (JStr (case findIndex (\<lambda>t. tt_mode t = ''showing'') (textTracks (player s)) of
                      Some i \<Rightarrow> tt_language (textTracks (player s) ! i)
                    | None \<Rightarrow> []))
    \<and> get_prop (data (snd (fire js texttrackchange s))) ''captions'' \<noteq> None
    \<and> items (localStorage (snd (fire js texttrackchange s))) key =
        Some (JSON_stringify js (data (snd (fire js texttrackchange s))))
    \<and> (JSON_parse js (JSON_stringify js (data (snd (fire js texttrackchange s)))) =
          Some (data (snd (fire js texttrackchange s))) \<longrightarrow>
        decode js (items (localStorage (snd (fire js texttrackchange s))) key) =
          Inr (data (snd (fire js texttrackchange s))))"
proof -
  have sub: "texttrackchange \<in> set (subscriptions (player s))"
    using startup_registers(4) [OF assms(1,3)] assms(2) by simp
  obtain kvs where d: "data s = JObj kvs" using assms(4) by (cases "data s") auto
  show ?thesis
    using sub assms(5)
    by (auto simp: fire_def d on_texttrackchange_def Let_def map_of_assign write_record_def
        setItem_def decode_def split: option.splits)
qed

theorem captions_change_persists_language_or_empty_witness:
  "\<not> isl (onPlayerReady sample_JSON (player0\<lparr>textTracks := [track_en_default, track_fr_showing]\<rparr>)
            defaultOptions storage0)
   \<and> enabled defaultOptions ''captions''
   \<and> fst (fire sample_JSON texttrackchange (projr (onPlayerReady sample_JSON
         (player0\<lparr>textTracks := [track_en_default, track_fr_showing]\<rparr>)
         defaultOptions storage0))) = None
   \<and> get_prop (data (snd (fire sample_JSON texttrackchange (projr (onPlayerReady sample_JSON
         (player0\<lparr>textTracks := [track_en_default, track_fr_showing]\<rparr>)
         defaultOptions storage0))))) ''captions'' = Some (JStr ''fr'')
   \<and> items (localStorage (snd (fire sample_JSON texttrackchange (projr (onPlayerReady
         sample_JSON (player0\<lparr>textTracks := [track_en_default, track_fr_showing]\<rparr>)
         defaultOptions storage0))))) key = Some text_captions_fr
   \<and> \<not> isl (onPlayerReady sample_JSON player0 defaultOptions storage0)
   \<and> get_prop (data (projr (onPlayerReady sample_JSON player0 defaultOptions storage0)))
        ''captions'' = None
   \<and> get_prop (data (snd (fire sample_JSON texttrackchange
         (projr (onPlayerReady sample_JSON player0 defaultOptions storage0))))) ''captions'' =
        Some (JStr [])
   \<and> items (localStorage (snd (fire sample_JSON texttrackchange
         (projr (onPlayerReady sample_JSON player0 defaultOptions storage0))))) key =
        Some text_captions_empty
   \<and> decode sample_JSON (items (localStorage (snd (fire sample_JSON texttrackchange
         (projr (onPlayerReady sample_JSON player0 defaultOptions storage0))))) key) =
        Inr (JObj [(''captions'', JStr [])])"
proof -
  let ?p = "player0\<lparr>textTracks := [track_en_default, track_fr_showing]\<rparr>"
  let ?r1 = "onPlayerReady sample_JSON ?p defaultOptions storage0"
  let ?r2 = "onPlayerReady sample_JSON player0 defaultOptions storage0"
  let ?s1 = "projr ?r1"
  let ?s2 = "projr ?r2"
  have ok1: "\<not> isl ?r1" and ok2: "\<not> isl ?r2"
    by (simp_all add: example_defs)
  have r1: "?r1 = Inr ?s1" using ok1 by (cases ?r1) simp_all
  have r2: "?r2 = Inr ?s2" using ok2 by (cases ?r2) simp_all
  have c: "enabled defaultOptions ''captions''"
    by (simp add: enabled_def defaultOptions_def)
  have o1: "is_object (data ?s1)" and o2: "is_object (data ?s2)"
    by (simp_all add: example_defs)
  have f1: "\<not> full (localStorage ?s1)" and f2: "\<not> full (localStorage ?s2)"
    by (simp_all add: example_defs)
  have b2: "get_prop (data ?s2) ''captions'' = None"
    by (simp add: example_defs)
  have d1: "data (snd (fire sample_JSON texttrackchange ?s1)) = JObj [(''captions'', JStr ''fr'')]"
    by (simp add: example_defs track_en_default_def track_fr_showing_def)
  have d2: "data (snd (fire sample_JSON texttrackchange ?s2)) = JObj [(''captions'', JStr [])]"
    by (simp add: example_defs)
  have t1: "JSON_stringify sample_JSON (JObj [(''captions'', JStr ''fr'')]) = text_captions_fr"
    and t2: "JSON_stringify sample_JSON (JObj [(''captions'', JStr [])]) = text_captions_empty"
    and p2: "JSON_parse sample_JSON text_captions_empty = Some (JObj [(''captions'', JStr [])])"
    by (simp_all add: sample_defs)
  note w1 = captions_change_persists_language_or_empty [OF r1 c in_session_refl o1 f1]
  note w2 = captions_change_persists_language_or_empty [OF r2 c in_session_refl o2 f2]
  from w1 have a1: "fst (fire sample_JSON texttrackchange ?s1) = None"
    and a2: "items (localStorage (snd (fire sample_JSON texttrackchange ?s1))) key =
               Some text_captions_fr"
    unfolding d1 t1 by blast+
  from w2 p2 have a3: "items (localStorage (snd (fire sample_JSON texttrackchange ?s2))) key =
               Some text_captions_empty"
    and a4: "decode sample_JSON (items (localStorage (snd (fire sample_JSON texttrackchange ?s2)))
               key) = Inr (JObj [(''captions'', JStr [])])"
    unfolding d2 t2 by blast+
  show ?thesis
    using ok1 ok2 c b2 a1 a2 a3 unfolding a4 d1 d2 by simp
qed

text \<open>
  The claim as stated fails when the stored text is \<open>[]\<close>: the decoded record is an
  array, the handler runs without error while a \<open>fr\<close> track is showing, and what it
  writes is \<open>[]\<close> again, with no \<open>captions\<close> in it.
\<close>

theorem captions_not_recorded_in_array_counterexample:
  "\<not> isl (onPlayerReady sample_JSON (player0\<lparr>textTracks := [track_fr_showing]\<rparr>)
            defaultOptions (stored text_empty_array))
   \<and> enabled defaultOptions ''captions''
   \<and> tt_mode track_fr_showing = ''showing''
   \<and> fst (fire sample_JSON texttrackchange (projr (onPlayerReady sample_JSON
         (player0\<lparr>textTracks := [track_fr_showing]\<rparr>) defaultOptions
         (stored text_empty_array)))) = None
   \<and> get_prop (data (snd (fire sample_JSON texttrackchange (projr (onPlayerReady sample_JSON
         (player0\<lparr>textTracks := [track_fr_showing]\<rparr>) defaultOptions
         (stored text_empty_array)))))) ''captions'' = None
   \<and> items (localStorage (snd (fire sample_JSON texttrackchange (projr (onPlayerReady
         sample_JSON (player0\<lparr>textTracks := [track_fr_showing]\<rparr>) defaultOptions
         (stored text_empty_array)))))) key = Some text_empty_array
   \<and> decode sample_JSON (Some text_empty_array) = Inr (JArr [])
   \<and> get_prop (JArr []) ''captions'' = None"
  by (simp add: example_defs track_fr_showing_def)

section \<open>The volume-change handler and \<open>defaultMuted\<close>\<close>

text \<open>
  C10. In every state of a session that \<open>onPlayerReady\<close> has set up with the \<open>muted\<close>
  option enabled, a volume-change event makes the handler hand the player's current muted
  state to \<open>player.defaultMuted\<close>; it changes nothing else of the player. This happens
  before the record is updated and written, so also when those steps fail.
\<close>

theorem volumechange_sets_defaultMuted:
  assumes "onPlayerReady js p opts st = Inr s0"
    and "enabled opts ''muted''"
    and "in_session s0 s"
  shows "player (snd (fire js volumechange s)) =
           (player s)\<lparr>p_defaultMuted := p_muted (player s)\<rparr>"
proof -
  have "volumechange \<in> set (subscriptions (player s))"
    using startup_registers(2) [OF assms(1,3)] assms(2) by simp
  moreover have "enabled (options s) ''muted''"
    using startup_registers(1) [OF assms(1,3)] assms(2) by simp
  ultimately show ?thesis
    by (auto simp: fire_def on_volumechange_def write_record_def Let_def
        split: sum.splits prod.splits)
qed

theorem volumechange_sets_defaultMuted_witness:
  "\<not> isl (onPlayerReady sample_JSON player0 defaultOptions storage0)
   \<and> enabled defaultOptions ''muted''
   \<and> p_muted (player (projr (onPlayerReady sample_JSON player0 defaultOptions storage0))) =
       JBool True
   \<and> p_defaultMuted (player (projr (onPlayerReady sample_JSON player0 defaultOptions storage0))) =
       JBool False
   \<and> p_defaultMuted (player (snd (fire sample_JSON volumechange
         (projr (onPlayerReady sample_JSON player0 defaultOptions storage0))))) = JBool True"
proof -
  let ?r = "onPlayerReady sample_JSON player0 defaultOptions storage0"
  have ok: "\<not> isl ?r"
    by (simp add: example_defs)
  then have h1: "?r = Inr (projr ?r)"
    by (cases ?r) simp_all
  have h2: "enabled defaultOptions ''muted''"
    by (simp add: enabled_def defaultOptions_def)
  have h3: "in_session (projr ?r) (projr ?r)"
    by (rule in_session_refl)
  have m: "p_muted (player (projr ?r)) = JBool True"
    and d: "p_defaultMuted (player (projr ?r)) = JBool False"
    by (simp_all add: example_defs)
  show ?thesis
    using ok h2 m d volumechange_sets_defaultMuted [OF h1 h2 h3]
    by simp
qed

end
